theory Spec2Isabelle
  imports Main
begin

section \<open>use-eventer: a React hook binding one handler to (element, event) pairs\<close>

text \<open>
  The development embeds \<^verbatim>\<open>src/index.ts\<close> (the hook \<^verbatim>\<open>useEventer\<close>) and the
  variant \<^verbatim>\<open>useListener\<close>, which reads each ref again when the cleanup runs.

  The hook talks to three collaborators it does not own: the caller's callback factory and
  handler, the ref objects of React, and the event-listener store of the DOM. The hook
  itself is embedded as a function that returns the ordered list of calls it makes to
  them (an effect trace) together with either the error it raised or the cleanup closure
  it hands to \<^verbatim>\<open>useEffect\<close>. A separate interpreter gives the DOM's meaning to a
  trace.
\<close>

subsection \<open>Data\<close>

text \<open>
  Elements, handler functions, abort signals and ref objects are compared by identity in
  JavaScript; each is a natural number here. A ref handle passed to the hook is a ref
  object or is itself absent (\<^verbatim>\<open>null\<close> or \<^verbatim>\<open>undefined\<close>): a
  \<open>ref option\<close>. The \<^verbatim>\<open>current\<close> field of every ref object is a store from
  refs to possibly absent elements.
\<close>

type_synonym node = nat
type_synonym handler = nat
type_synonym abort_signal = nat
type_synonym ref = nat
type_synonym ref_store = "ref \<Rightarrow> node option"

text \<open>
  The member \<^verbatim>\<open>signal\<close> of an options object: the object has no such key, or
  has the key with the value \<^verbatim>\<open>undefined\<close>, or has it with an abort signal.
  The three are told apart because an object spread copies a key whose value is
  \<^verbatim>\<open>undefined\<close>.
\<close>

datatype signal_member = NoSignalKey | SignalUndefined | Signal abort_signal

text \<open>
  The truth value of \<^verbatim>\<open>listenerOptions.signal\<close>: an abort signal is an object,
  hence truthy; a missing key reads as \<^verbatim>\<open>undefined\<close>.
\<close>

fun truthy :: "signal_member \<Rightarrow> bool" where
  "truthy (Signal s) = True"
| "truthy NoSignalKey = False"
| "truthy SignalUndefined = False"

text \<open>
  \<^verbatim>\<open>AddEventListenerOptions\<close>: every member is optional. For the three flags an
  absent member is \<open>None\<close>; the member \<^verbatim>\<open>passive\<close> is the field
  \<open>passive_opt\<close>.
\<close>

record listener_options =
  capture :: "bool option"
  once :: "bool option"
  passive_opt :: "bool option"
  signal :: signal_member

text \<open>
  \<^verbatim>\<open>HookOptions\<close> after the destructuring of lines 50--55, which replaces absent
  members by \<^verbatim>\<open>false\<close> and \<^verbatim>\<open>{}\<close>.
\<close>

record hook_options =
  oneToOne :: bool
  callHandlerOnce :: bool
  callHandlerOnEach :: bool
  listenerOptions :: listener_options

text \<open>
  \<^verbatim>\<open>ref\<close> and \<^verbatim>\<open>event\<close> are each a single value or an array; lines 57--58
  wrap a single value into an array of length one.
\<close>

datatype 'a one_or_many = Single 'a | Array "'a list"

fun as_array :: "'a one_or_many \<Rightarrow> 'a list" where
  "as_array (Single x) = [x]"
| "as_array (Array xs) = xs"

text \<open>
  The calls the hook makes, in the order it makes them. \<open>CallFactory\<close> is
  \<^verbatim>\<open>callback()\<close>; \<open>CallHandler h\<close> is \<^verbatim>\<open>handler()\<close>, always without an
  event argument; the remaining three are the DOM calls
  \<^verbatim>\<open>node.addEventListener(evt, handler, opts)\<close>,
  \<^verbatim>\<open>node.removeEventListener(evt, handler)\<close> and \<^verbatim>\<open>controller.abort()\<close>
  (named by the controller's signal).
\<close>

datatype effect =
    CallFactory
  | CallHandler handler
  | AddEventListener node string handler listener_options
  | RemoveEventListener node string handler
  | Abort abort_signal

text \<open>
  The errors: the one the hook throws itself on lines 61--63, and the
  \<^verbatim>\<open>TypeError\<close> of JavaScript for a property read or a method call on
  \<^verbatim>\<open>null\<close> or \<^verbatim>\<open>undefined\<close>.
\<close>

datatype error = ConfigurationMismatch | TypeError

subsection \<open>Statements\<close>

text \<open>
  A piece of code yields the calls it made and then either the error that stopped it or
  its value. Code after an error does not run.
\<close>

type_synonym 'a action = "effect list \<times> (error + 'a)"

definition result :: "'a \<Rightarrow> 'a action" where
  "result x = ([], Inr x)"

definition throw :: "error \<Rightarrow> 'a action" where
  "throw e = ([], Inl e)"

definition emit :: "effect \<Rightarrow> unit action" where
  "emit e = ([e], Inr ())"

definition and_then :: "'a action \<Rightarrow> ('a \<Rightarrow> 'b action) \<Rightarrow> 'b action" where
  "and_then m f =
     (case snd m of
        Inl e \<Rightarrow> (fst m, Inl e)
      | Inr x \<Rightarrow> (fst m @ fst (f x), snd (f x)))"

definition seq :: "unit action \<Rightarrow> 'a action \<Rightarrow> 'a action" where
  "seq m n = and_then m (\<lambda>u. n)"

text \<open>
  A cleanup closure runs later, against the ref store of that moment.
\<close>

type_synonym cleanup = "ref_store \<Rightarrow> unit action"

text \<open>
  \<^verbatim>\<open>rf.current\<close> throws on an absent handle; \<^verbatim>\<open>rf?.current\<close> reads as
  \<^verbatim>\<open>undefined\<close> there.
\<close>

definition read_current :: "ref_store \<Rightarrow> ref option \<Rightarrow> node option action" where
  "read_current store rf = (case rf of None \<Rightarrow> throw TypeError | Some r \<Rightarrow> result (store r))"

definition opt_current :: "ref_store \<Rightarrow> ref option \<Rightarrow> node option" where
  "opt_current store rf = (case rf of None \<Rightarrow> None | Some r \<Rightarrow> store r)"

text \<open>
  \<^verbatim>\<open>{ signal: controller.signal, ...listenerOptions }\<close>: the spread comes second, so
  whenever \<^verbatim>\<open>listenerOptions\<close> has the key \<^verbatim>\<open>signal\<close>, its value replaces
  the controller's signal, also when that value is \<^verbatim>\<open>undefined\<close>.
\<close>

definition merge_options :: "abort_signal \<Rightarrow> listener_options \<Rightarrow> listener_options" where
  "merge_options ctl lo =
     lo\<lparr>signal := (case signal lo of
                     NoSignalKey \<Rightarrow> Signal ctl
                   | SignalUndefined \<Rightarrow> SignalUndefined
                   | Signal s \<Rightarrow> Signal s)\<rparr>"

text \<open>\<^verbatim>\<open>if (callHandlerOnEach) handler();\<close>\<close>

definition call_on_each :: "bool \<Rightarrow> handler \<Rightarrow> unit action" where
  "call_on_each each h = (if each then emit (CallHandler h) else result ())"

text \<open>
  \<^verbatim>\<open>node?.addEventListener(evt, handler, opts)\<close> and
  \<^verbatim>\<open>node?.removeEventListener(evt, handler)\<close>: optional chaining makes the call a
  no-op on an absent element, where the plain call would throw.
\<close>

definition opt_add :: "node option \<Rightarrow> string \<Rightarrow> handler \<Rightarrow> listener_options \<Rightarrow> unit action" where
  "opt_add nd evt h opts =
     (case nd of None \<Rightarrow> result () | Some n \<Rightarrow> emit (AddEventListener n evt h opts))"

definition opt_remove :: "node option \<Rightarrow> string \<Rightarrow> handler \<Rightarrow> unit action" where
  "opt_remove nd evt h =
     (case nd of None \<Rightarrow> result () | Some n \<Rightarrow> emit (RemoveEventListener n evt h))"

text \<open>
  \<^verbatim>\<open>events[i]\<close>: reading past the end of a JavaScript array gives
  \<^verbatim>\<open>undefined\<close>, which the DOM converts to the string "undefined".
\<close>

definition js_index :: "string list \<Rightarrow> nat \<Rightarrow> string" where
  "js_index events i = (if i < length events then events ! i else ''undefined'')"

subsection \<open>The loops of \<^verbatim>\<open>src/index.ts\<close>\<close>

text \<open>
  Line 72: \<^verbatim>\<open>refs.map((rf) => rf.current)\<close>, which stops at the first absent
  handle.
\<close>

primrec read_currents :: "ref_store \<Rightarrow> ref option list \<Rightarrow> node option list action" where
  "read_currents store [] = result []"
| "read_currents store (rf # rfs) =
     and_then (read_current store rf) (\<lambda>nd.
     and_then (read_currents store rfs) (\<lambda>nds.
     result (nd # nds)))"

text \<open>Lines 75--81: \<^verbatim>\<open>for (let i = 0; i < nodes.length; i++)\<close>, from index \<open>i\<close> on.\<close>

function paired_register ::
  "nat \<Rightarrow> node option list \<Rightarrow> string list \<Rightarrow> bool \<Rightarrow> handler \<Rightarrow> listener_options \<Rightarrow> unit action" where
  "paired_register i nodes events each h opts =
     (if i < length nodes
      then seq (call_on_each each h)
            (seq (opt_add (nodes ! i) (js_index events i) h opts)
              (paired_register (Suc i) nodes events each h opts))
      else result ())"
  by pat_completeness auto
termination
  by (relation "measure (\<lambda>(i, nodes, _). length nodes - i)") auto

declare paired_register.simps [simp del]

text \<open>Lines 86--92: the inner loop \<^verbatim>\<open>for (let evt of events)\<close> for one element.\<close>

primrec events_register ::
  "node option \<Rightarrow> string list \<Rightarrow> bool \<Rightarrow> handler \<Rightarrow> listener_options \<Rightarrow> unit action" where
  "events_register nd [] each h opts = result ()"
| "events_register nd (evt # evts) each h opts =
     seq (call_on_each each h)
      (seq (opt_add nd evt h opts) (events_register nd evts each h opts))"

text \<open>Lines 85--93: the outer loop \<^verbatim>\<open>for (let node of nodes)\<close>.\<close>

primrec broadcast_register ::
  "node option list \<Rightarrow> string list \<Rightarrow> bool \<Rightarrow> handler \<Rightarrow> listener_options \<Rightarrow> unit action" where
  "broadcast_register [] events each h opts = result ()"
| "broadcast_register (nd # nds) events each h opts =
     seq (events_register nd events each h opts) (broadcast_register nds events each h opts)"

text \<open>Lines 102--104: the index loop of the cleanup.\<close>

function paired_unregister ::
  "nat \<Rightarrow> node option list \<Rightarrow> string list \<Rightarrow> handler \<Rightarrow> unit action" where
  "paired_unregister i nodes events h =
     (if i < length nodes
      then seq (opt_remove (nodes ! i) (js_index events i) h)
            (paired_unregister (Suc i) nodes events h)
      else result ())"
  by pat_completeness auto
termination
  by (relation "measure (\<lambda>(i, nodes, _). length nodes - i)") auto

declare paired_unregister.simps [simp del]

text \<open>Lines 108--112: the nested loops of the cleanup.\<close>

primrec events_unregister :: "node option \<Rightarrow> string list \<Rightarrow> handler \<Rightarrow> unit action" where
  "events_unregister nd [] h = result ()"
| "events_unregister nd (evt # evts) h =
     seq (opt_remove nd evt h) (events_unregister nd evts h)"

primrec broadcast_unregister :: "node option list \<Rightarrow> string list \<Rightarrow> handler \<Rightarrow> unit action" where
  "broadcast_unregister [] events h = result ()"
| "broadcast_unregister (nd # nds) events h =
     seq (events_unregister nd events h) (broadcast_unregister nds events h)"

subsection \<open>The hook of \<^verbatim>\<open>src/index.ts\<close>\<close>

text \<open>Line 82: \<^verbatim>\<open>return () => controller.abort();\<close>\<close>

definition abort_cleanup :: "abort_signal \<Rightarrow> cleanup" where
  "abort_cleanup ctl = (\<lambda>later. emit (Abort ctl))"

text \<open>
  Lines 95--113: the closure returned after the nested loops. It captures
  \<^verbatim>\<open>listenerOptions\<close>, \<^verbatim>\<open>oneToOne\<close>, the snapshot \<^verbatim>\<open>nodes\<close>,
  \<^verbatim>\<open>events\<close>, \<^verbatim>\<open>handler\<close> and \<^verbatim>\<open>controller\<close>, and never reads a ref.
\<close>

definition snapshot_cleanup ::
  "listener_options \<Rightarrow> bool \<Rightarrow> node option list \<Rightarrow> string list \<Rightarrow> handler \<Rightarrow> abort_signal \<Rightarrow> cleanup" where
  "snapshot_cleanup lo one nodes events h ctl = (\<lambda>later.
     if \<not> truthy (signal lo) then emit (Abort ctl)
     else if one then paired_unregister 0 nodes events h
     else broadcast_unregister nodes events h)"

text \<open>
  Lines 66--115: the function given to \<^verbatim>\<open>useEffect\<close>. \<open>ctl\<close> is the signal of the
  controller made by \<^verbatim>\<open>new AbortController()\<close>; \<open>store\<close> holds the refs' contents
  while the effect runs.
\<close>

definition useEventer_effect ::
  "ref option list \<Rightarrow> string list \<Rightarrow> (unit \<Rightarrow> handler) \<Rightarrow> hook_options \<Rightarrow> abort_signal
     \<Rightarrow> ref_store \<Rightarrow> cleanup action" where
  "useEventer_effect refs events callback options ctl store =
     seq (emit CallFactory)
      (let h = callback () in
       seq (if callHandlerOnce options then emit (CallHandler h) else result ())
        (and_then (read_currents store refs) (\<lambda>nodes.
           let opts = merge_options ctl (listenerOptions options) in
           if oneToOne options
           then seq (paired_register 0 nodes events (callHandlerOnEach options) h opts)
                  (result (abort_cleanup ctl))
           else seq (broadcast_register nodes events (callHandlerOnEach options) h opts)
                  (result (snapshot_cleanup (listenerOptions options) (oneToOne options)
                             nodes events h ctl)))))"

text \<open>
  Lines 43--116: one activation cycle of the hook. The guard of lines 60--64 throws while
  the component renders, before \<^verbatim>\<open>useEffect\<close> is reached; otherwise React runs the
  effect. The dependency array only tells React when to start a new cycle and is left out.
\<close>

definition useEventer ::
  "ref option one_or_many \<Rightarrow> string one_or_many \<Rightarrow> (unit \<Rightarrow> handler) \<Rightarrow> hook_options
     \<Rightarrow> abort_signal \<Rightarrow> ref_store \<Rightarrow> cleanup action" where
  "useEventer rf event callback options ctl store =
     (let events = as_array event; refs = as_array rf
      in if oneToOne options \<and> length refs \<noteq> length events
         then throw ConfigurationMismatch
         else useEventer_effect refs events callback options ctl store)"

subsection \<open>The variant \<^verbatim>\<open>useListener\<close>\<close>

text \<open>
  The variant keeps no snapshot: every loop reads \<^verbatim>\<open>ref?.current\<close> when it
  reaches the ref, the cleanup loops included, and the optional chaining on the handle
  makes an absent handle a no-op. \<open>store\<close> holds the refs' contents while the loop
  runs.
\<close>

text \<open>Lines 73--79 of the variant: the index loop over \<^verbatim>\<open>refs\<close>.\<close>

function paired_register_refs ::
  "nat \<Rightarrow> ref option list \<Rightarrow> string list \<Rightarrow> bool \<Rightarrow> handler \<Rightarrow> listener_options \<Rightarrow> ref_store
     \<Rightarrow> unit action" where
  "paired_register_refs i refs events each h opts store =
     (if i < length refs
      then seq (call_on_each each h)
            (seq (opt_add (opt_current store (refs ! i)) (js_index events i) h opts)
              (paired_register_refs (Suc i) refs events each h opts store))
      else result ())"
  by pat_completeness auto
termination
  by (relation "measure (\<lambda>(i, refs, _). length refs - i)") auto

declare paired_register_refs.simps [simp del]

text \<open>Lines 83--91 of the variant: the nested loops over \<^verbatim>\<open>refs\<close> and \<^verbatim>\<open>events\<close>.\<close>

primrec events_register_ref ::
  "ref option \<Rightarrow> string list \<Rightarrow> bool \<Rightarrow> handler \<Rightarrow> listener_options \<Rightarrow> ref_store \<Rightarrow> unit action" where
  "events_register_ref rf [] each h opts store = result ()"
| "events_register_ref rf (evt # evts) each h opts store =
     seq (call_on_each each h)
      (seq (opt_add (opt_current store rf) evt h opts)
        (events_register_ref rf evts each h opts store))"

primrec broadcast_register_refs ::
  "ref option list \<Rightarrow> string list \<Rightarrow> bool \<Rightarrow> handler \<Rightarrow> listener_options \<Rightarrow> ref_store
     \<Rightarrow> unit action" where
  "broadcast_register_refs [] events each h opts store = result ()"
| "broadcast_register_refs (rf # rfs) events each h opts store =
     seq (events_register_ref rf events each h opts store)
      (broadcast_register_refs rfs events each h opts store)"

text \<open>Lines 96--98 of the variant: the index loop of the cleanup.\<close>

function paired_unregister_refs ::
  "nat \<Rightarrow> ref option list \<Rightarrow> string list \<Rightarrow> handler \<Rightarrow> ref_store \<Rightarrow> unit action" where
  "paired_unregister_refs i refs events h store =
     (if i < length refs
      then seq (opt_remove (opt_current store (refs ! i)) (js_index events i) h)
            (paired_unregister_refs (Suc i) refs events h store)
      else result ())"
  by pat_completeness auto
termination
  by (relation "measure (\<lambda>(i, refs, _). length refs - i)") auto

declare paired_unregister_refs.simps [simp del]

text \<open>Lines 101--105 of the variant: the nested loops of the cleanup.\<close>

primrec events_unregister_ref ::
  "ref option \<Rightarrow> string list \<Rightarrow> handler \<Rightarrow> ref_store \<Rightarrow> unit action" where
  "events_unregister_ref rf [] h store = result ()"
| "events_unregister_ref rf (evt # evts) h store =
     seq (opt_remove (opt_current store rf) evt h) (events_unregister_ref rf evts h store)"

primrec broadcast_unregister_refs ::
  "ref option list \<Rightarrow> string list \<Rightarrow> handler \<Rightarrow> ref_store \<Rightarrow> unit action" where
  "broadcast_unregister_refs [] events h store = result ()"
| "broadcast_unregister_refs (rf # rfs) events h store =
     seq (events_unregister_ref rf events h store) (broadcast_unregister_refs rfs events h store)"

text \<open>Lines 93--109 of the variant: the closure returned after the nested loops.\<close>

definition resolving_cleanup ::
  "listener_options \<Rightarrow> bool \<Rightarrow> ref option list \<Rightarrow> string list \<Rightarrow> handler \<Rightarrow> abort_signal
     \<Rightarrow> cleanup" where
  "resolving_cleanup lo one refs events h ctl = (\<lambda>later.
     if truthy (signal lo)
     then (if one then paired_unregister_refs 0 refs events h later
           else broadcast_unregister_refs refs events h later)
     else emit (Abort ctl))"

text \<open>Lines 66--111 of the variant: the function given to \<^verbatim>\<open>useEffect\<close>.\<close>

definition useListener_effect ::
  "ref option list \<Rightarrow> string list \<Rightarrow> (unit \<Rightarrow> handler) \<Rightarrow> hook_options \<Rightarrow> abort_signal
     \<Rightarrow> ref_store \<Rightarrow> cleanup action" where
  "useListener_effect refs events callback options ctl store =
     seq (emit CallFactory)
      (let h = callback () in
       seq (if callHandlerOnce options then emit (CallHandler h) else result ())
        (let opts = merge_options ctl (listenerOptions options) in
         if oneToOne options
         then seq (paired_register_refs 0 refs events (callHandlerOnEach options) h opts store)
                (result (abort_cleanup ctl))
         else seq (broadcast_register_refs refs events (callHandlerOnEach options) h opts store)
                (result (resolving_cleanup (listenerOptions options) (oneToOne options)
                           refs events h ctl))))"

definition useListener ::
  "ref option one_or_many \<Rightarrow> string one_or_many \<Rightarrow> (unit \<Rightarrow> handler) \<Rightarrow> hook_options
     \<Rightarrow> abort_signal \<Rightarrow> ref_store \<Rightarrow> cleanup action" where
  "useListener rf event callback options ctl store =
     (let events = as_array event; refs = as_array rf
      in if oneToOne options \<and> length refs \<noteq> length events
         then throw ConfigurationMismatch
         else useListener_effect refs events callback options ctl store)"

subsection \<open>Reading a trace\<close>

text \<open>The registrations of a trace, in order: one entry for each \<^verbatim>\<open>addEventListener\<close> call.\<close>

fun registrations :: "effect list \<Rightarrow> (node \<times> string \<times> handler \<times> listener_options) list" where
  "registrations [] = []"
| "registrations (AddEventListener n evt h opts # es) = (n, evt, h, opts) # registrations es"
| "registrations (e # es) = registrations es"

text \<open>The deregistrations of a trace: one entry for each \<^verbatim>\<open>removeEventListener\<close> call.\<close>

fun deregistrations :: "effect list \<Rightarrow> (node \<times> string \<times> handler) list" where
  "deregistrations [] = []"
| "deregistrations (RemoveEventListener n evt h # es) = (n, evt, h) # deregistrations es"
| "deregistrations (e # es) = deregistrations es"


fun factory_calls :: "effect list \<Rightarrow> nat" where
  "factory_calls [] = 0"
| "factory_calls (CallFactory # es) = Suc (factory_calls es)"
| "factory_calls (e # es) = factory_calls es"


text \<open>
  The calls made by the cleanup of a cycle when it runs against the ref store \<open>later\<close>;
  a cycle that raised has no cleanup.
\<close>

definition cleanup_effects :: "cleanup action \<Rightarrow> ref_store \<Rightarrow> effect list" where
  "cleanup_effects r later = (case snd r of Inl e \<Rightarrow> [] | Inr c \<Rightarrow> fst (c later))"

subsection \<open>The event-listener store of the DOM\<close>

text \<open>
  The meaning of the three DOM calls follows the DOM standard. The store is the list of
  all registered listeners in registration order; a listener is identified by its
  element, type, callback and capture flag, and remembers the signal it was registered
  with.
\<close>

record event_listener =
  l_target :: node
  l_type :: string
  l_callback :: handler
  l_capture :: bool
  l_signal :: "abort_signal option"

record dom_state =
  listeners :: "event_listener list"
  aborted :: "abort_signal set"

text \<open>The capture flag of an options object: absent means \<^verbatim>\<open>false\<close>.\<close>

definition flatten_capture :: "listener_options \<Rightarrow> bool" where
  "flatten_capture opts = (capture opts = Some True)"

text \<open>
  The signal of an options object as the DOM reads it: a key whose value is
  \<^verbatim>\<open>undefined\<close> counts as missing.
\<close>

definition listener_signal :: "listener_options \<Rightarrow> abort_signal option" where
  "listener_signal opts =
     (case signal opts of Signal s \<Rightarrow> Some s | NoSignalKey \<Rightarrow> None | SignalUndefined \<Rightarrow> None)"

definition same_listener :: "node \<Rightarrow> string \<Rightarrow> handler \<Rightarrow> bool \<Rightarrow> event_listener \<Rightarrow> bool" where
  "same_listener n evt h cap l =
     (l_target l = n \<and> l_type l = evt \<and> l_callback l = h \<and> l_capture l = cap)"

text \<open>
  \<^verbatim>\<open>addEventListener\<close>: nothing happens when the signal is already aborted or when
  the element already has a listener of that type, callback and capture flag; otherwise
  the listener is appended.
\<close>

definition add_event_listener ::
  "node \<Rightarrow> string \<Rightarrow> handler \<Rightarrow> listener_options \<Rightarrow> dom_state \<Rightarrow> dom_state" where
  "add_event_listener n evt h opts d =
     (if (case listener_signal opts of None \<Rightarrow> False | Some s \<Rightarrow> s \<in> aborted d) then d
      else if list_ex (same_listener n evt h (flatten_capture opts)) (listeners d) then d
      else d\<lparr>listeners := listeners d @
                  [\<lparr>l_target = n, l_type = evt, l_callback = h,
                    l_capture = flatten_capture opts, l_signal = listener_signal opts\<rparr>]\<rparr>)"

text \<open>
  \<^verbatim>\<open>removeEventListener(evt, handler)\<close>: called without options, so the capture
  flag is \<^verbatim>\<open>false\<close>.
\<close>

definition remove_event_listener :: "node \<Rightarrow> string \<Rightarrow> handler \<Rightarrow> dom_state \<Rightarrow> dom_state" where
  "remove_event_listener n evt h d =
     d\<lparr>listeners := filter (\<lambda>l. \<not> same_listener n evt h False l) (listeners d)\<rparr>"

text \<open>
  \<^verbatim>\<open>controller.abort()\<close>: a second abort does nothing; the first removes every
  listener registered with the controller's signal, on every element.
\<close>

definition abort :: "abort_signal \<Rightarrow> dom_state \<Rightarrow> dom_state" where
  "abort s d =
     (if s \<in> aborted d then d
      else \<lparr>listeners = filter (\<lambda>l. l_signal l \<noteq> Some s) (listeners d),
            aborted = insert s (aborted d)\<rparr>)"

text \<open>
  One call of a trace. The caller's factory and handler are taken not to touch the
  listener store.
\<close>

fun apply_effect :: "effect \<Rightarrow> dom_state \<Rightarrow> dom_state" where
  "apply_effect CallFactory d = d"
| "apply_effect (CallHandler h) d = d"
| "apply_effect (AddEventListener n evt h opts) d = add_event_listener n evt h opts d"
| "apply_effect (RemoveEventListener n evt h) d = remove_event_listener n evt h d"
| "apply_effect (Abort s) d = abort s d"

primrec run :: "effect list \<Rightarrow> dom_state \<Rightarrow> dom_state" where
  "run [] d = d"
| "run (e # es) d = run es (apply_effect e d)"

text \<open>Dispatching \<open>evt\<close> at element \<open>n\<close> invokes \<open>h\<close> when \<open>h\<close> listens there for \<open>evt\<close>.\<close>

definition dispatch_invokes :: "dom_state \<Rightarrow> node \<Rightarrow> string \<Rightarrow> handler \<Rightarrow> bool" where
  "dispatch_invokes d n evt h =
     list_ex (\<lambda>l. l_target l = n \<and> l_type l = evt \<and> l_callback l = h) (listeners d)"

text \<open>
  A controller is fresh for a store when its signal is not aborted and no listener of the
  store carries it, as after \<^verbatim>\<open>new AbortController()\<close>.
\<close>

definition fresh :: "abort_signal \<Rightarrow> dom_state \<Rightarrow> bool" where
  "fresh ctl d = (ctl \<notin> aborted d \<and> list_all (\<lambda>l. l_signal l \<noteq> Some ctl) (listeners d))"

subsection \<open>Vocabulary of the proofs\<close>

text \<open>An argument of the hook all of whose ref handles are present.\<close>

definition present :: "ref one_or_many \<Rightarrow> ref option one_or_many" where
  "present rf = map_one_or_many Some rf"

text \<open>
  The calls of one loop iteration for the pair \<open>(nd, evt)\<close>: the optional handler call,
  then the guarded registration.
\<close>

definition pair_step ::
  "bool \<Rightarrow> handler \<Rightarrow> listener_options \<Rightarrow> node option \<times> string \<Rightarrow> effect list" where
  "pair_step each h opts p =
     (if each then [CallHandler h] else [])
       @ (case fst p of None \<Rightarrow> [] | Some n \<Rightarrow> [AddEventListener n (snd p) h opts])"

text \<open>The calls of one iteration of a cleanup loop.\<close>

definition removal_step :: "handler \<Rightarrow> node option \<times> string \<Rightarrow> effect list" where
  "removal_step h p = (case fst p of None \<Rightarrow> [] | Some n \<Rightarrow> [RemoveEventListener n (snd p) h])"

text \<open>
  The pairs the registration loops visit, in order: index-aligned when \<open>one\<close> is set,
  the cross product (elements outside, event types inside) otherwise.
\<close>

definition binding_set ::
  "bool \<Rightarrow> node option list \<Rightarrow> string list \<Rightarrow> (node option \<times> string) list" where
  "binding_set one nodes events = (if one then zip nodes events else List.product nodes events)"

text \<open>The pairs whose element is present, in order.\<close>

definition present_pairs :: "(node option \<times> string) list \<Rightarrow> (node \<times> string) list" where
  "present_pairs ps = List.map_filter (\<lambda>(nd, evt). map_option (\<lambda>n. (n, evt)) nd) ps"


text \<open>
  A call is tagged by \<open>ctl\<close> when it is a call of the caller's code or a registration
  under the signal \<open>ctl\<close>.
\<close>

fun tagged :: "abort_signal \<Rightarrow> effect \<Rightarrow> bool" where
  "tagged ctl CallFactory = True"
| "tagged ctl (CallHandler h) = True"
| "tagged ctl (AddEventListener n evt h opts) = (signal opts = Signal ctl)"
| "tagged ctl (RemoveEventListener n evt h) = False"
| "tagged ctl (Abort s) = False"

subsection \<open>Concrete inputs\<close>

text \<open>
  The defaults of lines 50--55 and variations of them; a store in which ref \<open>r\<close> holds
  element \<open>r + 10\<close>, a store in which every ref is empty, and a store in which only ref
  \<open>0\<close> holds an element; a factory returning handler \<open>7\<close>; a document without
  listeners. The controller of a cycle has signal \<open>1\<close>, a signal of the caller is \<open>2\<close>.
\<close>

definition no_listener_options :: listener_options where
  "no_listener_options =
     \<lparr>capture = None, once = None, passive_opt = None, signal = NoSignalKey\<rparr>"

definition controller_listener_options :: listener_options where
  "controller_listener_options =
     \<lparr>capture = None, once = None, passive_opt = None, signal = Signal 1\<rparr>"

definition custom_listener_options :: listener_options where
  "custom_listener_options =
     \<lparr>capture = None, once = None, passive_opt = None, signal = Signal 2\<rparr>"

definition undefined_listener_options :: listener_options where
  "undefined_listener_options =
     \<lparr>capture = None, once = None, passive_opt = None, signal = SignalUndefined\<rparr>"

definition default_options :: hook_options where
  "default_options = \<lparr>oneToOne = False, callHandlerOnce = False, callHandlerOnEach = False,
     listenerOptions = no_listener_options\<rparr>"

definition paired_options :: hook_options where
  "paired_options = \<lparr>oneToOne = True, callHandlerOnce = False, callHandlerOnEach = False,
     listenerOptions = no_listener_options\<rparr>"

definition once_options :: hook_options where
  "once_options = \<lparr>oneToOne = False, callHandlerOnce = True, callHandlerOnEach = False,
     listenerOptions = no_listener_options\<rparr>"

definition each_options :: hook_options where
  "each_options = \<lparr>oneToOne = False, callHandlerOnce = False, callHandlerOnEach = True,
     listenerOptions = no_listener_options\<rparr>"

definition custom_signal_options :: hook_options where
  "custom_signal_options = \<lparr>oneToOne = False, callHandlerOnce = False,
     callHandlerOnEach = False, listenerOptions = custom_listener_options\<rparr>"

definition paired_custom_signal_options :: hook_options where
  "paired_custom_signal_options = \<lparr>oneToOne = True, callHandlerOnce = False,
     callHandlerOnEach = False, listenerOptions = custom_listener_options\<rparr>"

definition undefined_signal_options :: hook_options where
  "undefined_signal_options = \<lparr>oneToOne = False, callHandlerOnce = False,
     callHandlerOnEach = False, listenerOptions = undefined_listener_options\<rparr>"

definition mounted :: ref_store where
  "mounted r = Some (r + 10)"

definition unmounted :: ref_store where
  "unmounted r = None"

definition half_mounted :: ref_store where
  "half_mounted r = (if r = 0 then Some 10 else None)"

definition handler_factory :: "unit \<Rightarrow> handler" where
  "handler_factory u = 7"

definition empty_dom :: dom_state where
  "empty_dom = \<lparr>listeners = [], aborted = {}\<rparr>"

lemmas fixture_defs = no_listener_options_def controller_listener_options_def
  custom_listener_options_def undefined_listener_options_def default_options_def
  paired_options_def once_options_def each_options_def custom_signal_options_def
  paired_custom_signal_options_def undefined_signal_options_def
  mounted_def unmounted_def half_mounted_def handler_factory_def empty_dom_def

lemmas action_defs = result_def throw_def emit_def and_then_def seq_def

lemmas hook_defs = useEventer_def useEventer_effect_def useListener_def useListener_effect_def
  Let_def abort_cleanup_def snapshot_cleanup_def resolving_cleanup_def cleanup_effects_def
  paired_register.simps paired_unregister.simps paired_register_refs.simps
  paired_unregister_refs.simps call_on_each_def opt_add_def opt_remove_def
  read_current_def opt_current_def js_index_def merge_options_def action_defs

section \<open>Properties of the trace\<close>

subsection \<open>Sequencing\<close>

lemma seq_result [simp]: "seq (es, Inr u) n = (es @ fst n, snd n)"
  by (simp add: seq_def and_then_def)

lemma seq_error [simp]: "seq (es, Inl e) n = (es, Inl e)"
  by (simp add: seq_def and_then_def)

lemma and_then_result [simp]: "and_then (es, Inr x) f = (es @ fst (f x), snd (f x))"
  by (simp add: and_then_def)

lemma and_then_error [simp]: "and_then (es, Inl e) f = (es, Inl e)"
  by (simp add: and_then_def)

lemma call_on_each_shape:
  "call_on_each each h = ((if each then [CallHandler h] else []), Inr ())"
  by (simp add: call_on_each_def emit_def result_def)

lemma opt_add_shape:
  "opt_add nd evt h opts
     = ((case nd of None \<Rightarrow> [] | Some n \<Rightarrow> [AddEventListener n evt h opts]), Inr ())"
  by (cases nd) (simp_all add: opt_add_def emit_def result_def)

lemma opt_remove_shape: "opt_remove nd evt h = (removal_step h (nd, evt), Inr ())"
  by (cases nd) (simp_all add: opt_remove_def removal_step_def emit_def result_def)

lemma pair_step_shape:
  "seq (call_on_each each h) (seq (opt_add nd evt h opts) n)
     = (pair_step each h opts (nd, evt) @ fst n, snd n)"
  by (cases nd) (simp_all add: call_on_each_shape opt_add_shape pair_step_def)

subsection \<open>Reading a concatenated trace\<close>

lemma registrations_append: "registrations (xs @ ys) = registrations xs @ registrations ys"
  by (induction xs rule: registrations.induct) simp_all

lemma deregistrations_append:
  "deregistrations (xs @ ys) = deregistrations xs @ deregistrations ys"
  by (induction xs rule: deregistrations.induct) simp_all


lemma factory_calls_append: "factory_calls (xs @ ys) = factory_calls xs + factory_calls ys"
  by (induction xs rule: factory_calls.induct) simp_all

subsection \<open>The loops visit the binding set and do not raise\<close>

lemma events_register_shape:
  "events_register nd events each h opts
     = (concat (map (\<lambda>evt. pair_step each h opts (nd, evt)) events), Inr ())"
  by (induction events) (simp_all add: pair_step_shape result_def)

lemma broadcast_register_shape:
  "broadcast_register nodes events each h opts
     = (concat (map (pair_step each h opts) (List.product nodes events)), Inr ())"
  by (induction nodes) (simp_all add: events_register_shape result_def map_concat comp_def)

lemma paired_register_shape:
  "paired_register i nodes events each h opts
     = (concat (map (\<lambda>k. pair_step each h opts (nodes ! k, js_index events k))
          [i..<length nodes]), Inr ())"
proof (induction i nodes events each h opts rule: paired_register.induct)
  case (1 i nodes events each h opts)
  show ?case
  proof (cases "i < length nodes")
    case True
    then show ?thesis
      using 1 by (subst paired_register.simps) (simp add: upt_conv_Cons pair_step_shape)
  next
    case False
    then show ?thesis by (subst paired_register.simps) (simp add: result_def)
  qed
qed

lemma paired_register_zip:
  assumes "length nodes = length events"
  shows "paired_register 0 nodes events each h opts
     = (concat (map (pair_step each h opts) (zip nodes events)), Inr ())"
proof -
  have "map (\<lambda>k. pair_step each h opts (nodes ! k, js_index events k)) [0..<length nodes]
      = map (pair_step each h opts) (zip nodes events)"
    using assms by (intro nth_equalityI) (simp_all add: js_index_def)
  then show ?thesis by (simp add: paired_register_shape)
qed

lemma events_unregister_shape:
  "events_unregister nd events h
     = (concat (map (\<lambda>evt. removal_step h (nd, evt)) events), Inr ())"
  by (induction events) (simp_all add: opt_remove_shape result_def)

lemma broadcast_unregister_shape:
  "broadcast_unregister nodes events h
     = (concat (map (removal_step h) (List.product nodes events)), Inr ())"
  by (induction nodes) (simp_all add: events_unregister_shape result_def map_concat comp_def)

lemma paired_unregister_shape:
  "paired_unregister i nodes events h
     = (concat (map (\<lambda>k. removal_step h (nodes ! k, js_index events k)) [i..<length nodes]),
        Inr ())"
proof (induction i nodes events h rule: paired_unregister.induct)
  case (1 i nodes events h)
  show ?case
  proof (cases "i < length nodes")
    case True
    then show ?thesis
      using 1 by (subst paired_unregister.simps) (simp add: upt_conv_Cons opt_remove_shape)
  next
    case False
    then show ?thesis by (subst paired_unregister.simps) (simp add: result_def)
  qed
qed

lemma read_currents_shape:
  "read_currents store refs
     = ([], if None \<in> set refs then Inl TypeError else Inr (map (opt_current store) refs))"
proof (induction refs)
  case Nil
  show ?case by (simp add: result_def)
next
  case (Cons rf rfs)
  show ?case
    by (cases rf) (simp_all add: Cons read_current_def opt_current_def throw_def result_def)
qed

lemma as_array_present [simp]: "as_array (present rf) = map Some (as_array rf)"
  by (cases rf) (simp_all add: present_def)

lemma opt_current_Some [simp]: "opt_current store \<circ> Some = store"
  by (rule ext) (simp add: opt_current_def)


subsection \<open>The whole cycle\<close>

lemma useEventer_shape:
  assumes "\<not> (oneToOne options \<and> length (as_array rf) \<noteq> length (as_array event))"
  shows "useEventer rf event callback options ctl store =
     (if None \<in> set (as_array rf)
      then (CallFactory # (if callHandlerOnce options then [CallHandler (callback ())] else []),
            Inl TypeError)
      else (CallFactory # (if callHandlerOnce options then [CallHandler (callback ())] else [])
              @ concat (map (pair_step (callHandlerOnEach options) (callback ())
                               (merge_options ctl (listenerOptions options)))
                   (binding_set (oneToOne options) (map (opt_current store) (as_array rf))
                      (as_array event))),
            Inr (if oneToOne options then abort_cleanup ctl
                 else snapshot_cleanup (listenerOptions options) (oneToOne options)
                        (map (opt_current store) (as_array rf)) (as_array event)
                        (callback ()) ctl)))"
proof (cases "oneToOne options")
  case True
  then have "length (map (opt_current store) (as_array rf)) = length (as_array event)"
    using assms by simp
  then show ?thesis using True assms
    by (simp add: useEventer_def useEventer_effect_def Let_def binding_set_def emit_def
        result_def read_currents_shape paired_register_zip)
next
  case False
  then show ?thesis
    by (simp add: useEventer_def useEventer_effect_def Let_def binding_set_def emit_def
        result_def read_currents_shape broadcast_register_shape)
qed



lemma useEventer_mismatch:
  "oneToOne options \<and> length (as_array rf) \<noteq> length (as_array event)
     \<Longrightarrow> useEventer rf event callback options ctl store = ([], Inl ConfigurationMismatch)"
  by (simp add: useEventer_def throw_def)

lemma useEventer_completed:
  assumes "snd (useEventer rf event callback options ctl store) = Inr c"
  shows "\<not> (oneToOne options \<and> length (as_array rf) \<noteq> length (as_array event))"
    and "None \<notin> set (as_array rf)"
proof -
  show ok: "\<not> (oneToOne options \<and> length (as_array rf) \<noteq> length (as_array event))"
    using assms useEventer_mismatch [of options rf event callback ctl store] by fastforce
  show "None \<notin> set (as_array rf)"
    using assms useEventer_shape [OF ok, of callback ctl store] by (auto split: if_splits)
qed

subsection \<open>Registrations and handler calls of the loops\<close>

lemma present_pairs_simps [simp]:
  "present_pairs [] = []"
  "present_pairs ((None, evt) # ps) = present_pairs ps"
  "present_pairs ((Some n, evt) # ps) = (n, evt) # present_pairs ps"
  by (simp_all add: present_pairs_def List.map_filter_simps)



lemma registrations_pair_step:
  "registrations (pair_step each h opts (nd, evt))
     = map (\<lambda>(n, e). (n, e, h, opts)) (present_pairs [(nd, evt)])"
  by (cases nd; cases each) (simp_all add: pair_step_def)

lemma registrations_steps:
  "registrations (concat (map (pair_step each h opts) ps))
     = map (\<lambda>(n, e). (n, e, h, opts)) (present_pairs ps)"
proof (induction ps)
  case Nil
  show ?case by simp
next
  case (Cons p ps)
  obtain nd evt where p: "p = (nd, evt)" by (cases p)
  show ?case using Cons
    by (cases nd) (simp_all add: p registrations_append registrations_pair_step)
qed

lemma registrations_handler_steps:
  "(n, evt, h', opts') \<in> set (registrations (concat (map (pair_step each h opts) ps)))
     \<Longrightarrow> h' = h"
  by (auto simp add: registrations_steps)

lemma deregistrations_steps:
  "deregistrations (concat (map (removal_step h) ps))
     = map (\<lambda>(n, e). (n, e, h)) (present_pairs ps)"
proof (induction ps)
  case Nil
  show ?case by simp
next
  case (Cons p ps)
  obtain nd evt where p: "p = (nd, evt)" by (cases p)
  show ?case using Cons
    by (cases nd) (simp_all add: p deregistrations_append removal_step_def)
qed


lemma factory_calls_steps: "factory_calls (concat (map (pair_step each h opts) ps)) = 0"
proof (induction ps)
  case Nil
  show ?case by simp
next
  case (Cons p ps)
  have "factory_calls (pair_step each h opts p) = 0"
    by (cases "fst p"; cases each) (simp_all add: pair_step_def)
  then show ?case using Cons by (simp add: factory_calls_append)
qed

subsection \<open>Registrations directly after a handler call\<close>





subsection \<open>The cleanup loops mirror the registration loops\<close>

text \<open>
  Lines 108--112 against lines 85--93: the nested cleanup loops remove, in the same
  order, the (element, event type, handler) triple of every registration of the nested
  registration loops.
\<close>

lemma broadcast_unregister_mirrors:
  "deregistrations (fst (broadcast_unregister nodes events h))
     = map (\<lambda>(n, evt, h, opts). (n, evt, h))
         (registrations (fst (broadcast_register nodes events each h opts)))"
  by (simp add: broadcast_unregister_shape broadcast_register_shape deregistrations_steps
      registrations_steps comp_def case_prod_beta)

section \<open>The claims about setup\<close>

text \<open>
  In the statements of this section \<open>present rf\<close> is an argument of the hook whose ref
  handles are all present; what the hook does on an absent handle is stated with C3.
\<close>

text \<open>
  The guard of lines 60--64: a paired call with differing counts raises
  ConfigurationMismatch before any call is made, and ConfigurationMismatch is raised by
  no other input.
\<close>

lemma mismatch_guard:
  "(oneToOne options \<and> length (as_array rf) \<noteq> length (as_array event)
      \<longrightarrow> useEventer rf event callback options ctl store = ([], Inl ConfigurationMismatch))
   \<and> (snd (useEventer rf event callback options ctl store) = Inl ConfigurationMismatch
      \<longrightarrow> oneToOne options \<and> length (as_array rf) \<noteq> length (as_array event))"
proof (cases "oneToOne options \<and> length (as_array rf) \<noteq> length (as_array event)")
  case True
  then show ?thesis by (simp add: useEventer_mismatch)
next
  case False
  then show ?thesis by (simp add: useEventer_shape [OF False])
qed

text \<open>The errors of setup: the guard, and line 72 on an absent ref handle.\<close>

lemma setup_errors:
  "snd (useEventer rf event callback options ctl store) = Inl e \<longleftrightarrow>
     (if oneToOne options \<and> length (as_array rf) \<noteq> length (as_array event)
      then e = ConfigurationMismatch
      else None \<in> set (as_array rf) \<and> e = TypeError)"
proof (cases "oneToOne options \<and> length (as_array rf) \<noteq> length (as_array event)")
  case True
  then show ?thesis by (auto simp add: useEventer_mismatch)
next
  case False
  then show ?thesis by (auto simp add: useEventer_shape [OF False])
qed

text \<open>
  C3 at two ref handles, the second one absent, against one event type, broadcast. The
  counts play no part, yet setup raises: line 72 reads \<^verbatim>\<open>rf.current\<close> of the
  absent handle after the callback factory has been called.
\<close>

theorem absent_handle_raises:
  "oneToOne default_options = False
   \<and> useEventer (Array [Some 0, None]) (Single ''click'') handler_factory default_options 1
        mounted
       = ([CallFactory], Inl TypeError)"
  by (simp add: hook_defs fixture_defs)









text \<open>
  C7. In every cycle the callback factory is called exactly once, as the first call, and
  every registration of the cycle carries the handler it returned. Setting the call-once
  flag adds exactly one call of that handler, without an event argument, directly after
  the factory call and before the loops, whatever the number of bindings.
\<close>

theorem factory_and_call_once:
  assumes "\<not> (oneToOne options \<and> length (as_array rf) \<noteq> length (as_array event))"
  shows "\<exists>rest.
       fst (useEventer rf event callback (options\<lparr>callHandlerOnce := True\<rparr>) ctl store)
         = CallFactory # CallHandler (callback ()) # rest
     \<and> fst (useEventer rf event callback (options\<lparr>callHandlerOnce := False\<rparr>) ctl store)
         = CallFactory # rest
     \<and> factory_calls rest = 0
     \<and> (\<forall>(n, evt, h, opts) \<in> set (registrations rest). h = callback ())"
proof -
  let ?loops = "concat (map (pair_step (callHandlerOnEach options) (callback ())
                        (merge_options ctl (listenerOptions options)))
            (binding_set (oneToOne options) (map (opt_current store) (as_array rf))
               (as_array event)))"
  let ?rest = "if None \<in> set (as_array rf) then [] else ?loops"
  have on: "fst (useEventer rf event callback (options\<lparr>callHandlerOnce := True\<rparr>) ctl store)
         = CallFactory # CallHandler (callback ()) # ?rest"
    using assms by (simp add: useEventer_shape)
  have off: "fst (useEventer rf event callback (options\<lparr>callHandlerOnce := False\<rparr>) ctl store)
         = CallFactory # ?rest"
    using assms by (simp add: useEventer_shape)
  have "\<forall>(n, evt, h, opts) \<in> set (registrations ?loops). h = callback ()"
    using registrations_handler_steps by fastforce
  then have shared: "\<forall>(n, evt, h, opts) \<in> set (registrations ?rest). h = callback ()"
    by simp
  have none: "factory_calls ?rest = 0"
    by (simp add: factory_calls_steps)
  show ?thesis using on off shared none by blast
qed

text \<open>C7 at zero bindings: an empty array of targets, call-once set.\<close>

theorem factory_and_call_once_witness:
  "oneToOne once_options = False
   \<and> fst (useEventer (Array []) (Single ''click'') handler_factory once_options 1 mounted)
     = [CallFactory, CallHandler (handler_factory ())]"
proof -
  have ok: "\<not> (oneToOne default_options
         \<and> length (as_array (Array ([]::ref option list))) \<noteq> length (as_array (Single ''click'')))"
    by (simp add: default_options_def)
  obtain rest where
    on: "fst (useEventer (Array []) (Single ''click'') handler_factory
          (default_options\<lparr>callHandlerOnce := True\<rparr>) 1 mounted)
        = CallFactory # CallHandler (handler_factory ()) # rest"
    and off: "fst (useEventer (Array []) (Single ''click'') handler_factory
          (default_options\<lparr>callHandlerOnce := False\<rparr>) 1 mounted) = CallFactory # rest"
    using factory_and_call_once [OF ok, of handler_factory 1 mounted] by blast
  have "fst (useEventer (Array []) (Single ''click'') handler_factory
          (default_options\<lparr>callHandlerOnce := False\<rparr>) 1 mounted) = [CallFactory]"
    by (simp add: hook_defs fixture_defs)
  then have "rest = []" using off by simp
  moreover have "default_options\<lparr>callHandlerOnce := True\<rparr> = once_options"
    by (simp add: default_options_def once_options_def)
  ultimately show ?thesis using on by (simp add: once_options_def)
qed




section \<open>The claims about teardown\<close>

subsection \<open>The cleanup does not raise\<close>

lemma opt_remove_returns: "snd (opt_remove nd evt h) = Inr ()"
  by (simp add: opt_remove_shape)

lemma snapshot_cleanup_returns:
  "snd (snapshot_cleanup lo one nodes events h ctl later) = Inr ()"
  by (simp add: snapshot_cleanup_def emit_def paired_unregister_shape
      broadcast_unregister_shape)

text \<open>
  C9. Whenever setup completed, running the returned cleanup raises no error, whatever
  the refs hold at that time and whichever elements were absent: every
  \<^verbatim>\<open>removeEventListener\<close> call goes through optional chaining.
\<close>

theorem teardown_never_raises:
  assumes "snd (useEventer rf event callback options ctl store) = Inr c"
  shows "snd (c later) = Inr ()"
proof -
  have ok: "\<not> (oneToOne options \<and> length (as_array rf) \<noteq> length (as_array event))"
    and all: "None \<notin> set (as_array rf)"
    by (rule useEventer_completed [OF assms])+
  have "c = (if oneToOne options then abort_cleanup ctl
          else snapshot_cleanup (listenerOptions options) (oneToOne options)
                 (map (opt_current store) (as_array rf)) (as_array event) (callback ()) ctl)"
    using assms all by (simp add: useEventer_shape [OF ok])
  then show ?thesis
    by (simp add: snapshot_cleanup_returns abort_cleanup_def emit_def)
qed

text \<open>
  C9 at two targets, the second one absent at setup, with a signal of the caller: the
  cleanup walks the snapshot, removes the listener of the first element, skips the absent
  one and returns.
\<close>

theorem teardown_never_raises_witness:
  "snd (useEventer (Array [Some 0, Some 1]) (Single ''click'') handler_factory
        custom_signal_options 1 half_mounted)
     = Inr (snapshot_cleanup custom_listener_options False [Some 10, None] [''click''] 7 1)
   \<and> snapshot_cleanup custom_listener_options False [Some 10, None] [''click''] 7 1 unmounted
     = ([RemoveEventListener 10 ''click'' 7], Inr ())"
proof -
  have built: "snd (useEventer (Array [Some 0, Some 1]) (Single ''click'') handler_factory
        custom_signal_options 1 half_mounted)
     = Inr (snapshot_cleanup custom_listener_options False [Some 10, None] [''click''] 7 1)"
    by (simp add: useEventer_def useEventer_effect_def fixture_defs Let_def read_current_def
        opt_add_def call_on_each_def action_defs)
  have calls: "fst (snapshot_cleanup custom_listener_options False [Some 10, None] [''click'']
        7 1 unmounted) = [RemoveEventListener 10 ''click'' 7]"
    by (simp add: snapshot_cleanup_def custom_listener_options_def opt_remove_def action_defs)
  show ?thesis
    using built calls teardown_never_raises [OF built, of unmounted]
    by (simp add: prod_eq_iff)
qed

subsection \<open>Registrations under the controller's signal\<close>

lemma apply_tagged:
  assumes "tagged ctl e"
  shows "filter (\<lambda>l. l_signal l \<noteq> Some ctl) (listeners (apply_effect e d))
           = filter (\<lambda>l. l_signal l \<noteq> Some ctl) (listeners d)
       \<and> aborted (apply_effect e d) = aborted d"
  using assms by (cases e) (simp_all add: add_event_listener_def listener_signal_def)

lemma run_tagged:
  assumes "list_all (tagged ctl) effs"
  shows "filter (\<lambda>l. l_signal l \<noteq> Some ctl) (listeners (run effs d))
           = filter (\<lambda>l. l_signal l \<noteq> Some ctl) (listeners d)
       \<and> aborted (run effs d) = aborted d"
  using assms
proof (induction effs arbitrary: d)
  case Nil
  show ?case by simp
next
  case (Cons e effs)
  then have e: "tagged ctl e" and rest: "list_all (tagged ctl) effs" by simp_all
  show ?case using Cons.IH [OF rest, of "apply_effect e d"] apply_tagged [OF e, of d] by simp
qed

lemma tagged_steps:
  assumes "signal opts = Signal ctl"
  shows "list_all (tagged ctl) (concat (map (pair_step each h opts) ps))"
proof (induction ps)
  case Nil
  show ?case by simp
next
  case (Cons p ps)
  have "list_all (tagged ctl) (pair_step each h opts p)"
    using assms by (cases "fst p"; cases each) (simp_all add: pair_step_def)
  then show ?case using Cons by simp
qed

lemma registrations_tagged:
  "list_all (tagged ctl) effs \<Longrightarrow> (n, evt, h, opts) \<in> set (registrations effs)
     \<Longrightarrow> signal opts = Signal ctl"
  by (induction effs rule: registrations.induct) auto

lemma signal_merge_options:
  "signal lo = NoSignalKey \<Longrightarrow> signal (merge_options ctl lo) = Signal ctl"
  by (simp add: merge_options_def)

lemma useEventer_tagged:
  assumes "\<not> (oneToOne options \<and> length (as_array rf) \<noteq> length (as_array event))"
      and "signal (listenerOptions options) = NoSignalKey"
  shows "list_all (tagged ctl) (fst (useEventer rf event callback options ctl store))"
  using assms
  by (simp add: useEventer_shape tagged_steps signal_merge_options)

lemma abort_after_tagged:
  assumes "list_all (tagged ctl) effs" and "fresh ctl d"
  shows "listeners (run [Abort ctl] (run effs d)) = listeners d"
proof -
  have keep: "filter (\<lambda>l. l_signal l \<noteq> Some ctl) (listeners d) = listeners d"
    using assms(2) by (simp add: fresh_def list_all_iff)
  have "ctl \<notin> aborted (run effs d)"
    using run_tagged [OF assms(1), of d] assms(2) by (simp add: fresh_def)
  then have "listeners (run [Abort ctl] (run effs d))
      = filter (\<lambda>l. l_signal l \<noteq> Some ctl) (listeners (run effs d))"
    by (simp add: abort_def)
  then show ?thesis using run_tagged [OF assms(1), of d] keep by simp
qed

text \<open>
  When \<^verbatim>\<open>listenerOptions\<close> has no key \<^verbatim>\<open>signal\<close>, under either topology,
  every registration is made under the controller's signal and the cleanup is the single
  call \<^verbatim>\<open>controller.abort()\<close>. Run on any document for which the controller is fresh,
  setup followed by the cleanup leaves the listener store as it was before the cycle.
\<close>

lemma no_signal_key_teardown:
  assumes "snd (useEventer rf event callback options ctl store) = Inr c"
      and "signal (listenerOptions options) = NoSignalKey"
      and "fresh ctl d"
  shows "fst (c later) = [Abort ctl]
       \<and> (\<forall>(n, evt, h, opts) \<in> set (registrations (fst (useEventer rf event callback options ctl store))).
             signal opts = Signal ctl)
       \<and> listeners (run (fst (c later)) (run (fst (useEventer rf event callback options ctl store)) d))
           = listeners d"
proof -
  let ?effs = "fst (useEventer rf event callback options ctl store)"
  have ok: "\<not> (oneToOne options \<and> length (as_array rf) \<noteq> length (as_array event))"
    and all: "None \<notin> set (as_array rf)"
    by (rule useEventer_completed [OF assms(1)])+
  have "c = (if oneToOne options then abort_cleanup ctl
          else snapshot_cleanup (listenerOptions options) (oneToOne options)
                 (map (opt_current store) (as_array rf)) (as_array event) (callback ()) ctl)"
    using assms(1) all by (simp add: useEventer_shape [OF ok])
  then have c: "fst (c later) = [Abort ctl]"
    using assms(2) by (simp add: abort_cleanup_def snapshot_cleanup_def emit_def)
  have tg: "list_all (tagged ctl) ?effs"
    by (rule useEventer_tagged [OF ok assms(2)])
  have regs: "\<forall>(n, evt, h, opts) \<in> set (registrations ?effs). signal opts = Signal ctl"
    using registrations_tagged [OF tg] by auto
  have same: "listeners (run (fst (c later)) (run ?effs d)) = listeners d"
    unfolding c by (rule abort_after_tagged [OF tg assms(3)])
  show ?thesis using c regs same by simp
qed

text \<open>
  C4 at a cycle whose \<^verbatim>\<open>listenerOptions\<close> is \<^verbatim>\<open>{ signal: undefined }\<close>, one
  present target and one event type. The caller supplied no signal and the cleanup is the
  controller's abort; but the spread of lines 88--91 has replaced the controller's signal
  by \<^verbatim>\<open>undefined\<close>, so the listener was registered under no signal at all: it is
  still in the store after the cleanup, and the event still invokes the handler.
\<close>

theorem undefined_signal_leak:
  "truthy (signal (listenerOptions undefined_signal_options)) = False
   \<and> cleanup_effects (useEventer (Single (Some 0)) (Single ''click'') handler_factory
        undefined_signal_options 1 mounted) mounted
     = [Abort 1]
   \<and> listeners
       (run (cleanup_effects (useEventer (Single (Some 0)) (Single ''click'') handler_factory
                undefined_signal_options 1 mounted) mounted)
          (run (fst (useEventer (Single (Some 0)) (Single ''click'') handler_factory
                undefined_signal_options 1 mounted)) empty_dom))
     = [\<lparr>l_target = 10, l_type = ''click'', l_callback = 7, l_capture = False,
          l_signal = None\<rparr>]
   \<and> dispatch_invokes
       (run (cleanup_effects (useEventer (Single (Some 0)) (Single ''click'') handler_factory
                undefined_signal_options 1 mounted) mounted)
          (run (fst (useEventer (Single (Some 0)) (Single ''click'') handler_factory
                undefined_signal_options 1 mounted)) empty_dom))
       10 ''click'' 7"
  by (simp add: hook_defs fixture_defs add_event_listener_def abort_def flatten_capture_def
      listener_signal_def dispatch_invokes_def)

text \<open>
  C1 at a paired cycle with a signal of the caller, one present target and one event
  type. The cleanup returned on line 82 only aborts the controller, whose signal the
  registration does not carry: the listener registered by the cycle is still in the store
  after the cleanup, and the event still invokes the handler.
\<close>

theorem paired_custom_signal_leak:
  "listeners
     (run (cleanup_effects (useEventer (Single (Some 0)) (Single ''click'') handler_factory
              paired_custom_signal_options 1 mounted) mounted)
        (run (fst (useEventer (Single (Some 0)) (Single ''click'') handler_factory
              paired_custom_signal_options 1 mounted)) empty_dom))
     = [\<lparr>l_target = 10, l_type = ''click'', l_callback = 7, l_capture = False,
          l_signal = Some 2\<rparr>]
   \<and> dispatch_invokes
       (run (cleanup_effects (useEventer (Single (Some 0)) (Single ''click'') handler_factory
              paired_custom_signal_options 1 mounted) mounted)
          (run (fst (useEventer (Single (Some 0)) (Single ''click'') handler_factory
              paired_custom_signal_options 1 mounted)) empty_dom))
       10 ''click'' 7"
  by (simp add: hook_defs fixture_defs add_event_listener_def abort_def flatten_capture_def
      listener_signal_def dispatch_invokes_def)

text \<open>
  C8 at the same cycle: setup makes one registration, the cleanup makes the single call
  \<^verbatim>\<open>controller.abort()\<close> and no deregistration, so the index loop of lines
  102--104 is not what a paired cycle runs.
\<close>

theorem paired_custom_signal_unmatched:
  "registrations (fst (useEventer (Single (Some 0)) (Single ''click'') handler_factory
        paired_custom_signal_options 1 mounted))
     = [(10, ''click'', 7, custom_listener_options)]
   \<and> cleanup_effects (useEventer (Single (Some 0)) (Single ''click'') handler_factory
        paired_custom_signal_options 1 mounted) mounted
     = [Abort 1]
   \<and> deregistrations (cleanup_effects (useEventer (Single (Some 0)) (Single ''click'')
        handler_factory paired_custom_signal_options 1 mounted) mounted)
     = []"
  by (simp add: hook_defs fixture_defs)

section \<open>The snapshot against the variant that resolves refs again\<close>

subsection \<open>The loops of the variant\<close>









text \<open>
  On an absent ref handle the two hooks part already during setup: the variant skips
  the handle and completes, the hook of \<^verbatim>\<open>src/index.ts\<close> raises.
\<close>

lemma absent_handle_skipped_by_variant:
  "fst (useListener (Array [Some 0, None]) (Single ''click'') handler_factory default_options 1
        mounted)
     = [CallFactory, AddEventListener 10 ''click'' 7 controller_listener_options]
   \<and> snd (useListener (Array [Some 0, None]) (Single ''click'') handler_factory
        default_options 1 mounted)
     = Inr (resolving_cleanup no_listener_options False [Some 0, None] [''click''] 7 1)"
  by (simp add: hook_defs fixture_defs del: resolving_cleanup_def)

subsection \<open>The claim\<close>




end
